theory Spec2Isabelle
  imports Main "HOL-Library.Finite_Map"
begin

section \<open>Strings\<close>

text \<open>
  Python strings are sequences of code points. A \<^typ>\<open>char\<close> stands for a code point
  below 256; the whitespace test is the one of \<^verbatim>\<open>str.isspace\<close> on that range.
\<close>

datatype error = ValueError string | OSError string

definition is_space :: "char \<Rightarrow> bool" where
  "is_space c = (of_char c \<in> {9, 10, 11, 12, 13, 28, 29, 30, 31, 32, 133, 160 :: nat})"

definition strip :: "string \<Rightarrow> string" where
  "strip s = rev (dropWhile is_space (rev (dropWhile is_space s)))"

definition startswith :: "string \<Rightarrow> string \<Rightarrow> bool" where
  "startswith s p = (take (length p) s = p)"

text \<open>\<^verbatim>\<open>str.rfind\<close> of one character: the last index where it occurs.\<close>

definition rfind :: "string \<Rightarrow> char \<Rightarrow> nat option" where
  "rfind s c =
     (if c \<in> set s then Some (length s - 1 - length (takeWhile (\<lambda>x. x \<noteq> c) (rev s)))
      else None)"

text \<open>The decimal rendering of a non-negative integer, as an f-string prints it.\<close>

definition digit :: "nat \<Rightarrow> char" where
  "digit d = char_of (48 + d)"

fun str_nat :: "nat \<Rightarrow> string" where
  "str_nat n = (if n < 10 then [digit n] else str_nat (n div 10) @ [digit (n mod 10)])"

declare str_nat.simps [simp del]

text \<open>
  \<^verbatim>\<open>repr\<close> of a string, which the \<^verbatim>\<open>%r\<close> of the library's error messages prints:
  single quotes, or double quotes when the string holds a single quote and no double one;
  the backslash, the chosen quote, tab, newline and carriage return escaped; every other
  code point that is not printable written as \<^verbatim>\<open>\x\<close> and two hexadecimal digits.
\<close>

definition hex_digit :: "nat \<Rightarrow> char" where
  "hex_digit d = (if d < 10 then char_of (48 + d) else char_of (87 + d))"

definition printable :: "char \<Rightarrow> bool" where
  "printable c = ((32 \<le> (of_char c :: nat) \<and> (of_char c :: nat) < 127)
                  \<or> (160 < (of_char c :: nat) \<and> (of_char c :: nat) \<noteq> 173))"

definition escape_char :: "char \<Rightarrow> char \<Rightarrow> string" where
  "escape_char q c =
     (if c = CHR 0x5C then [CHR 0x5C, CHR 0x5C]
      else if c = q then [CHR 0x5C, q]
      else if c = CHR 0x09 then [CHR 0x5C, CHR ''t'']
      else if c = CHR 0x0A then [CHR 0x5C, CHR ''n'']
      else if c = CHR 0x0D then [CHR 0x5C, CHR ''r'']
      else if \<not> printable c
        then [CHR 0x5C, CHR ''x'', hex_digit (of_char c div 16), hex_digit (of_char c mod 16)]
      else [c])"

definition py_repr :: "string \<Rightarrow> string" where
  "py_repr s =
     (let q = (if CHR 0x27 \<in> set s \<and> CHR 0x22 \<notin> set s then CHR 0x22 else CHR 0x27)
      in [q] @ concat (map (escape_char q) s) @ [q])"

section \<open>Extension normalisation\<close>

definition ensure_dot_prefix :: "string \<Rightarrow> error + string" where
  "ensure_dot_prefix ext0 =
     (let ext = strip ext0 in
      if ext = [] then Inl (ValueError ''Extension cannot be empty.'')
      else if \<not> startswith ext ''.'' then Inr (''.'' @ ext)
      else Inr ext)"

section \<open>Paths\<close>

text \<open>
  A \<^verbatim>\<open>pathlib.Path\<close> of the POSIX flavour: its root (empty for a relative path, one
  slash, or two slashes, which POSIX keeps apart) and its components. The operations are
  those of CPython 3.8 to 3.13, which agree on the names this program builds; a new name
  is refused by \<^verbatim>\<open>with_name\<close> when it is empty, a dot or holds a separator, as CPython
  3.13 does.
\<close>

datatype path = Path (anchor: string) (parts: "string list")

definition name :: "path \<Rightarrow> string" where
  "name p = (if parts p = [] then [] else last (parts p))"

definition suffix :: "path \<Rightarrow> string" where
  "suffix p =
     (case rfind (name p) (CHR ''.'') of
        None \<Rightarrow> []
      | Some i \<Rightarrow> if 0 < i \<and> i < length (name p) - 1 then drop i (name p) else [])"

definition stem :: "path \<Rightarrow> string" where
  "stem p =
     (case rfind (name p) (CHR ''.'') of
        None \<Rightarrow> name p
      | Some i \<Rightarrow> if 0 < i \<and> i < length (name p) - 1 then take i (name p) else name p)"

definition join :: "string list \<Rightarrow> string" where
  "join xs = (case xs of [] \<Rightarrow> [] | y # ys \<Rightarrow> y @ concat (map (\<lambda>z. ''/'' @ z) ys))"

definition path_str :: "path \<Rightarrow> string" where
  "path_str p =
     (if parts p = [] then (if anchor p = [] then ''.'' else anchor p)
      else anchor p @ join (parts p))"

text \<open>\<^verbatim>\<open>repr\<close> of a path, as the library's error messages print it.\<close>

definition path_repr :: "path \<Rightarrow> string" where
  "path_repr p = ''PosixPath('' @ py_repr (path_str p) @ '')''"

definition with_name :: "path \<Rightarrow> string \<Rightarrow> error + path" where
  "with_name p n =
     (if name p = [] then Inl (ValueError (path_repr p @ '' has an empty name''))
      else if n = [] \<or> CHR ''/'' \<in> set n \<or> n = ''.''
        then Inl (ValueError (''Invalid name '' @ py_repr n))
      else Inr (Path (anchor p) (butlast (parts p) @ [n])))"

definition with_suffix :: "path \<Rightarrow> string \<Rightarrow> error + path" where
  "with_suffix p s =
     (if CHR ''/'' \<in> set s then Inl (ValueError (''Invalid suffix '' @ py_repr s))
      else if (s \<noteq> [] \<and> \<not> startswith s ''.'') \<or> s = ''.''
        then Inl (ValueError (''Invalid suffix '' @ py_repr s))
      else if name p = [] then Inl (ValueError (path_repr p @ '' has an empty name''))
      else if suffix p = [] then Inr (Path (anchor p) (butlast (parts p) @ [name p @ s]))
      else Inr (Path (anchor p)
             (butlast (parts p) @ [take (length (name p) - length (suffix p)) (name p) @ s])))"

text \<open>
  \<^verbatim>\<open>Path(s)\<close>: the root is two slashes when the string starts with exactly two, one
  slash when it starts with one or with three or more, and empty otherwise; the string is
  split at the separators, empty and \<^verbatim>\<open>.\<close> components dropped.
\<close>

fun split_sep :: "string \<Rightarrow> string \<Rightarrow> string list" where
  "split_sep acc [] = [rev acc]"
| "split_sep acc (c # cs) =
     (if c = CHR ''/'' then rev acc # split_sep [] cs else split_sep (c # acc) cs)"

definition root_of :: "string \<Rightarrow> string" where
  "root_of s =
     (if startswith s ''//'' \<and> \<not> startswith s ''///'' then ''//''
      else if startswith s ''/'' then ''/''
      else [])"

definition path_of :: "string \<Rightarrow> path" where
  "path_of s = Path (root_of s) (filter (\<lambda>c. c \<noteq> [] \<and> c \<noteq> ''.'') (split_sep [] s))"


section \<open>The filesystem and the operating system\<close>

text \<open>
  The filesystem is a finite map from paths to nodes; a regular file carries its content.
  What the program cannot decide by itself is a parameter: whether a content is a ZIP
  container (\<^verbatim>\<open>zipfile.is_zipfile\<close>), whether a file can be read, whether examining a
  path fails (\<^verbatim>\<open>os.stat\<close> raising an \<^verbatim>\<open>OSError\<close> that \<^verbatim>\<open>pathlib\<close> does not take for
  absence: an over-long name, a directory that may not be searched), whether the system
  refuses a rename for another reason (permissions, another device, a missing directory),
  and what \<^verbatim>\<open>glob.glob\<close> and \<^verbatim>\<open>Path.resolve\<close> return. The failures carry the text of the
  exception.
\<close>

datatype node = File string | Dir

type_synonym fs = "(path, node) fmap"

record env =
  zip_valid :: "string \<Rightarrow> bool"
  read_error :: "path \<Rightarrow> bool"
  stat_error :: "path \<Rightarrow> string option"
  rename_error :: "path \<Rightarrow> path \<Rightarrow> string option"
  glob :: "string \<Rightarrow> string list"
  resolve :: "path \<Rightarrow> path"

text \<open>What the filesystem holds at a path: an entry, a regular file.\<close>

definition exists :: "fs \<Rightarrow> path \<Rightarrow> bool" where
  "exists fs p = (fmlookup fs p \<noteq> None)"

definition is_file :: "fs \<Rightarrow> path \<Rightarrow> bool" where
  "is_file fs p = (case fmlookup fs p of Some (File c) \<Rightarrow> True | _ \<Rightarrow> False)"

text \<open>
  \<^verbatim>\<open>Path.exists\<close> and \<^verbatim>\<open>Path.is_file\<close>: the answer of the filesystem, unless examining
  the path fails, which raises.
\<close>

definition path_exists :: "env \<Rightarrow> fs \<Rightarrow> path \<Rightarrow> error + bool" where
  "path_exists e fs p =
     (case stat_error e p of Some msg \<Rightarrow> Inl (OSError msg) | None \<Rightarrow> Inr (exists fs p))"

definition path_is_file :: "env \<Rightarrow> fs \<Rightarrow> path \<Rightarrow> error + bool" where
  "path_is_file e fs p =
     (case stat_error e p of Some msg \<Rightarrow> Inl (OSError msg) | None \<Rightarrow> Inr (is_file fs p))"

text \<open>
  What the system answers to a rename. A path that cannot be examined can neither be
  renamed nor be renamed to, the failure being one of reaching the path; otherwise the
  system may still refuse.
\<close>

definition replace_error :: "env \<Rightarrow> path \<Rightarrow> path \<Rightarrow> string option" where
  "replace_error e src dst =
     (case stat_error e src of
        Some msg \<Rightarrow> Some msg
      | None \<Rightarrow> (case stat_error e dst of Some msg \<Rightarrow> Some msg | None \<Rightarrow> rename_error e src dst))"

text \<open>
  \<^verbatim>\<open>os.replace\<close>: the source must exist, a regular file does not replace a directory
  nor a directory a regular file, and replacing a path by itself changes nothing. The
  failure is the text of the \<^verbatim>\<open>OSError\<close>.
\<close>

definition os_error_text :: "string \<Rightarrow> path \<Rightarrow> path \<Rightarrow> string" where
  "os_error_text what src dst =
     what @ '': '' @ py_repr (path_str src) @ '' -> '' @ py_repr (path_str dst)"

definition os_replace :: "env \<Rightarrow> fs \<Rightarrow> path \<Rightarrow> path \<Rightarrow> string + fs" where
  "os_replace e fs src dst =
     (case fmlookup fs src of
        None \<Rightarrow> Inl (os_error_text ''[Errno 2] No such file or directory'' src dst)
      | Some n \<Rightarrow>
          (case replace_error e src dst of
             Some msg \<Rightarrow> Inl msg
           | None \<Rightarrow>
               (case (n, fmlookup fs dst) of
                  (File c, Some Dir) \<Rightarrow> Inl (os_error_text ''[Errno 21] Is a directory'' src dst)
                | (Dir, Some (File c)) \<Rightarrow> Inl (os_error_text ''[Errno 20] Not a directory'' src dst)
                | _ \<Rightarrow> if src = dst then Inr fs else Inr (fmupd dst n (fmdrop src fs)))))"

section \<open>The archive verifier\<close>

text \<open>Every failure of opening or reading the file is swallowed and answers no.\<close>

definition is_zip_file :: "env \<Rightarrow> fs \<Rightarrow> path \<Rightarrow> bool" where
  "is_zip_file e fs p =
     (case fmlookup fs p of
        Some (File c) \<Rightarrow> stat_error e p = None \<and> \<not> read_error e p \<and> zip_valid e c
      | _ \<Rightarrow> False)"

section \<open>Conflict-free destinations\<close>

definition candidate :: "path \<Rightarrow> nat \<Rightarrow> error + path" where
  "candidate target i = with_name target (stem target @ ''-'' @ str_nat i @ suffix target)"

function next_available_path_loop :: "env \<Rightarrow> fs \<Rightarrow> path \<Rightarrow> nat \<Rightarrow> error + path" where
  "next_available_path_loop e fs target i =
     (case candidate target i of
        Inl err \<Rightarrow> Inl err
      | Inr c \<Rightarrow>
          (case path_exists e fs c of
             Inl err \<Rightarrow> Inl err
           | Inr found \<Rightarrow>
               if \<not> found then Inr c else next_available_path_loop e fs target (i + 1)))"
  by pat_completeness auto

lemma digit_inj:
  assumes "a < 10" and "b < 10" and "digit a = digit b"
  shows "a = b"
proof -
  have "of_char (digit a) = (of_char (digit b) :: nat)" using assms(3) by simp
  then show ?thesis using assms(1,2) by (simp add: digit_def)
qed

lemma str_nat_ne: "str_nat n \<noteq> []"
  by (subst str_nat.simps) simp

lemma str_nat_inj: "str_nat n = str_nat m \<Longrightarrow> n = m"
proof (induction n arbitrary: m rule: str_nat.induct)
  case (1 n)
  show ?case
  proof (cases "n < 10")
    case True
    then have sn: "str_nat n = [digit n]" by (subst str_nat.simps) simp
    show ?thesis
    proof (cases "m < 10")
      case True
      then have "str_nat m = [digit m]" by (subst str_nat.simps) simp
      with sn "1.prems" \<open>n < 10\<close> True show ?thesis by (auto dest: digit_inj)
    next
      case False
      then have "str_nat m = str_nat (m div 10) @ [digit (m mod 10)]" by (subst str_nat.simps) simp
      with sn "1.prems" str_nat_ne [of "m div 10"] show ?thesis by (cases "str_nat (m div 10)") auto
    qed
  next
    case False
    then have sn: "str_nat n = str_nat (n div 10) @ [digit (n mod 10)]" by (subst str_nat.simps) simp
    show ?thesis
    proof (cases "m < 10")
      case True
      then have "str_nat m = [digit m]" by (subst str_nat.simps) simp
      with sn "1.prems" str_nat_ne [of "n div 10"] show ?thesis by (cases "str_nat (n div 10)") auto
    next
      case mf: False
      then have sm: "str_nat m = str_nat (m div 10) @ [digit (m mod 10)]" by (subst str_nat.simps) simp
      from sn sm "1.prems" have a: "str_nat (n div 10) = str_nat (m div 10)"
        and b: "digit (n mod 10) = digit (m mod 10)" by auto
      from "1.IH" [OF False a] have c: "n div 10 = m div 10" .
      from b have d: "n mod 10 = m mod 10" by (intro digit_inj) simp_all
      from c d show ?thesis by (metis div_mult_mod_eq)
    qed
  qed
qed

lemma candidate_inj: "candidate t i = Inr c \<Longrightarrow> candidate t j = Inr c \<Longrightarrow> i = j"
  by (auto simp: candidate_def with_name_def split: if_splits dest: str_nat_inj)

lemma finite_taken: "finite {j. \<exists>c. candidate t j = Inr c \<and> c \<in> fmdom' fs}"
proof -
  let ?f = "\<lambda>j. case candidate t j of Inr c \<Rightarrow> Some c | Inl _ \<Rightarrow> None"
  let ?S = "{j. \<exists>c. candidate t j = Inr c \<and> c \<in> fmdom' fs}"
  have inj: "inj_on ?f ?S"
    by (auto simp: inj_on_def dest: candidate_inj)
  have "?f ` ?S \<subseteq> Some ` fmdom' fs"
    by auto
  then have "finite (?f ` ?S)"
    by (rule finite_subset) simp
  then show ?thesis
    using inj by (rule finite_imageD)
qed

text \<open>
  The probing loop ends: the candidates are pairwise distinct and only finitely many paths
  exist, so the number of existing candidates still ahead decreases at every step.
\<close>

termination next_available_path_loop
proof (relation "measure (\<lambda>(e, fs, t, i). card {j. i \<le> j \<and> (\<exists>c. candidate t j = Inr c \<and> c \<in> fmdom' fs)})")
  show "wf (measure (\<lambda>(e, fs, t, i). card {j. i \<le> j \<and> (\<exists>c. candidate t j = Inr c \<and> c \<in> fmdom' fs)}))"
    by simp
next
  fix e :: env and fs :: fs and target i c found
  assume c: "candidate target i = Inr c" and pe: "path_exists e fs c = Inr found"
    and nn: "\<not> \<not> found"
  from pe nn have ex: "exists fs c" by (auto simp: path_exists_def split: option.splits)
  let ?S = "\<lambda>k. {j. k \<le> j \<and> (\<exists>c. candidate target j = Inr c \<and> c \<in> fmdom' fs)}"
  have fin: "finite (?S i)" using finite_taken [of target fs] by (rule rev_finite_subset) auto
  have mem: "i \<in> ?S i" using c ex by (auto simp: exists_def fmlookup_dom'_iff)
  have notin: "i \<notin> ?S (i + 1)" by simp
  have "?S (i + 1) \<subseteq> ?S i" by auto
  with mem notin have "?S (i + 1) \<subset> ?S i" by blast
  then have "card (?S (i + 1)) < card (?S i)" using fin by (rule psubset_card_mono [rotated])
  then show "((e, fs, target, i + 1), (e, fs, target, i)) \<in> measure (\<lambda>(e, fs, t, i). card {j. i \<le> j \<and> (\<exists>c. candidate t j = Inr c \<and> c \<in> fmdom' fs)})"
    by simp
qed

definition next_available_path :: "env \<Rightarrow> fs \<Rightarrow> path \<Rightarrow> error + path" where
  "next_available_path e fs target =
     (case path_exists e fs target of
        Inl err \<Rightarrow> Inl err
      | Inr found \<Rightarrow> if \<not> found then Inr target else next_available_path_loop e fs target 1)"

section \<open>The rename engine\<close>

text \<open>
  The result is the filesystem after the call together with either the exception that
  escapes or the returned pair of success flag and message.
\<close>

definition quoted :: "path \<Rightarrow> string" where
  "quoted p = [CHR 0x27] @ path_str p @ [CHR 0x27]"

text \<open>
  The body of the \<^verbatim>\<open>try\<close> statement: an \<^verbatim>\<open>OSError\<close>, of a probe or of the rename, is
  caught and reported, any other exception escapes.
\<close>

definition caught :: "fs \<Rightarrow> path \<Rightarrow> error \<Rightarrow> fs \<times> (error + bool \<times> string)" where
  "caught fs file_path err =
     (case err of
        OSError msg \<Rightarrow> (fs, Inr (False, ''Error renaming '' @ quoted file_path @ '': '' @ msg))
      | ValueError msg \<Rightarrow> (fs, Inl (ValueError msg)))"

definition rename_step ::
  "env \<Rightarrow> fs \<Rightarrow> path \<Rightarrow> path \<Rightarrow> bool \<Rightarrow> fs \<times> (error + bool \<times> string)" where
  "rename_step e fs file_path dst overwrite =
     (case (if overwrite then Inr dst else next_available_path e fs dst) of
        Inl err \<Rightarrow> caught fs file_path err
      | Inr final_dst \<Rightarrow>
          (case (if overwrite then path_exists e fs dst else Inr False) of
             Inl err \<Rightarrow> caught fs file_path err
           | Inr replaces \<Rightarrow>
               (if replaces
                then (case os_replace e fs file_path dst of
                        Inl msg \<Rightarrow> caught fs file_path (OSError msg)
                      | Inr fs' \<Rightarrow>
                          (fs', Inr (True, ''Renamed (overwrote): '' @ name file_path
                                            @ '' -> '' @ name dst)))
                else (case os_replace e fs file_path final_dst of
                        Inl msg \<Rightarrow> caught fs file_path (OSError msg)
                      | Inr fs' \<Rightarrow>
                          (fs', Inr (True, ''Renamed: '' @ name file_path @ '' -> ''
                                            @ name final_dst
                                            @ (if final_dst = dst then []
                                               else '' (renamed to avoid conflict: ''
                                                    @ name final_dst @ '')'')))))))"

definition change_extension ::
  "env \<Rightarrow> fs \<Rightarrow> path \<Rightarrow> string \<Rightarrow> bool \<Rightarrow> bool \<Rightarrow> bool \<Rightarrow> fs \<times> (error + bool \<times> string)" where
  "change_extension e fs file_path new_extension verify_zip overwrite dry =
     (case path_is_file e fs file_path of
        Inl err \<Rightarrow> (fs, Inl err)
      | Inr regular \<Rightarrow>
          (if \<not> regular
           then (fs, Inr (False, ''Skip: '' @ quoted file_path @ '' is not a file.''))
           else (case ensure_dot_prefix new_extension of
                   Inl err \<Rightarrow> (fs, Inl err)
                 | Inr ext \<Rightarrow>
                     (if verify_zip \<and> \<not> is_zip_file e fs file_path
                      then (fs, Inr (False, ''Skip: '' @ quoted file_path
                                      @ '' is not a valid ZIP (use --no-verify to force).''))
                      else (case with_suffix file_path ext of
                              Inl err \<Rightarrow> (fs, Inl err)
                            | Inr dst \<Rightarrow>
                                (if dry
                                 then (case (if overwrite then path_exists e fs dst
                                             else Inr False) of
                                         Inl err \<Rightarrow> (fs, Inl err)
                                       | Inr replaces \<Rightarrow>
                                           (fs, Inr (True, ''Would rename: ''
                                              @ name file_path @ '' -> '' @ name dst
                                              @ (if replaces then '' (will overwrite)''
                                                 else []))))
                                 else rename_step e fs file_path dst overwrite))))))"

section \<open>The input expander\<close>

fun expand_matches ::
  "fs \<Rightarrow> env \<Rightarrow> path list \<Rightarrow> path set \<times> path list \<Rightarrow> error + path set \<times> path list" where
  "expand_matches fs e [] (seen, results) = Inr (seen, results)"
| "expand_matches fs e (p0 # ps) (seen, results) =
     (case path_exists e fs p0 of
        Inl err \<Rightarrow> Inl err
      | Inr found \<Rightarrow>
          (let p = (if found then resolve e p0 else p0) in
           if p \<notin> seen then expand_matches fs e ps (insert p seen, results @ [p])
           else expand_matches fs e ps (seen, results)))"

fun expand_items ::
  "fs \<Rightarrow> env \<Rightarrow> string list \<Rightarrow> path set \<times> path list \<Rightarrow> error + path set \<times> path list" where
  "expand_items fs e [] acc = Inr acc"
| "expand_items fs e (item # items) acc =
     (let matches0 = map path_of (glob e item);
          matches = (if matches0 = [] then [path_of item] else matches0)
      in (case expand_matches fs e matches acc of
            Inl err \<Rightarrow> Inl err
          | Inr acc' \<Rightarrow> expand_items fs e items acc'))"

definition expand_inputs :: "fs \<Rightarrow> env \<Rightarrow> string list \<Rightarrow> error + path list" where
  "expand_inputs fs e paths_or_patterns =
     (case expand_items fs e paths_or_patterns ({}, []) of
        Inl err \<Rightarrow> Inl err
      | Inr (seen, results) \<Rightarrow> Inr results)"

section \<open>The command line front end\<close>

text \<open>The parsed arguments, as \<^verbatim>\<open>parse_args\<close> returns them.\<close>

record args =
  args_paths :: "string list"
  args_pattern :: "string list"
  args_to :: string
  args_force :: bool
  args_no_verify :: bool
  args_dry_run :: bool

text \<open>
  The loop of \<^verbatim>\<open>main\<close> over the resolved files: the filesystem, the lines printed so
  far and the running conjunction of the outcomes. An exception that escapes
  \<^verbatim>\<open>change_extension\<close> or \<^verbatim>\<open>expand_inputs\<close> ends the program.
\<close>

fun main_loop ::
  "env \<Rightarrow> args \<Rightarrow> path list \<Rightarrow> fs \<Rightarrow> string list \<Rightarrow> bool \<Rightarrow> fs \<times> string list \<times> (error + bool)" where
  "main_loop e a [] fs out overall_ok = (fs, out, Inr overall_ok)"
| "main_loop e a (f # files) fs out overall_ok =
     (case change_extension e fs f (args_to a) (\<not> args_no_verify a) (args_force a)
             (args_dry_run a) of
        (fs', Inl err) \<Rightarrow> (fs', out, Inl err)
      | (fs', Inr (ok, msg)) \<Rightarrow> main_loop e a files fs' (out @ [msg]) (overall_ok \<and> ok))"

definition main :: "env \<Rightarrow> fs \<Rightarrow> args \<Rightarrow> fs \<times> string list \<times> (error + int)" where
  "main e fs a =
     (let inputs = args_paths a @ args_pattern a in
      if inputs = [] then (fs, [''No inputs provided. Specify files or use --pattern.''], Inr 2)
      else (case expand_inputs fs e inputs of
              Inl err \<Rightarrow> (fs, [], Inl err)
            | Inr files \<Rightarrow>
                if files = [] then (fs, [''No files matched the provided paths/patterns.''], Inr 1)
                else (case main_loop e a files fs [] True of
                        (fs', out, Inl err) \<Rightarrow> (fs', out, Inl err)
                      | (fs', out, Inr overall_ok) \<Rightarrow>
                          (fs', out, Inr (if overall_ok then 0 else 1)))))"

text \<open>
  The outcomes of the files of a run, one after the other on the filesystem the earlier
  ones leave, the filesystem after the last of them, and the message of an outcome: what
  the exit status is stated about.
\<close>

fun outcomes :: "env \<Rightarrow> args \<Rightarrow> path list \<Rightarrow> fs \<Rightarrow> (error + bool \<times> string) list" where
  "outcomes e a [] fs = []"
| "outcomes e a (f # files) fs =
     (case change_extension e fs f (args_to a) (\<not> args_no_verify a) (args_force a)
             (args_dry_run a) of
        (fs', r) \<Rightarrow> r # outcomes e a files fs')"

fun final_fs :: "env \<Rightarrow> args \<Rightarrow> path list \<Rightarrow> fs \<Rightarrow> fs" where
  "final_fs e a [] fs = fs"
| "final_fs e a (f # files) fs =
     final_fs e a files
       (fst (change_extension e fs f (args_to a) (\<not> args_no_verify a) (args_force a)
               (args_dry_run a)))"

definition message_of :: "error + bool \<times> string \<Rightarrow> string" where
  "message_of r = (case r of Inl err \<Rightarrow> [] | Inr (ok, msg) \<Rightarrow> msg)"

definition successful :: "error + bool \<times> string \<Rightarrow> bool" where
  "successful r = (case r of Inl err \<Rightarrow> False | Inr (ok, msg) \<Rightarrow> ok)"

definition returned :: "error + bool \<times> string \<Rightarrow> bool" where
  "returned r = (case r of Inl err \<Rightarrow> False | Inr (ok, msg) \<Rightarrow> True)"

text \<open>
  An operating system for the examples: a content is a ZIP container when it starts with
  the signature \<^verbatim>\<open>PK\<close>, every file can be read, every path can be examined, no rename
  is refused, no pattern matches and paths resolve to themselves.
\<close>

definition plain_env :: env where
  "plain_env =
     \<lparr>zip_valid = (\<lambda>c. startswith c ''PK''), read_error = (\<lambda>p. False),
      stat_error = (\<lambda>p. None), rename_error = (\<lambda>a b. None),
      glob = (\<lambda>s. []), resolve = (\<lambda>p. p)\<rparr>"


section \<open>Suffixes, stems and candidates\<close>

lemma rfind_None: "rfind s c = None \<longleftrightarrow> c \<notin> set s"
  by (simp add: rfind_def)

















section \<open>Contract of the extension normalisation\<close>

text \<open>
  C7. \<^verbatim>\<open>ensure_dot_prefix\<close> trims whitespace, raises the invalid-argument error exactly
  when the trimmed string is empty (so the empty string and the string of three blanks fail),
  and otherwise returns the trimmed string, with a dot put in front when it does not already
  start with one; every returned value starts with a dot. The function takes and returns
  values only.
\<close>

theorem ensure_dot_prefix_contract:
  "(ensure_dot_prefix e = Inl (ValueError ''Extension cannot be empty.'') \<longleftrightarrow> strip e = [])
   \<and> (strip e \<noteq> [] \<longrightarrow>
        ensure_dot_prefix e =
          Inr (if startswith (strip e) ''.'' then strip e else ''.'' @ strip e))
   \<and> (\<forall>r. ensure_dot_prefix e = Inr r \<longrightarrow> startswith r ''.'')
   \<and> (\<forall>x. ensure_dot_prefix e = Inl x \<longrightarrow> strip e = [])
   \<and> ensure_dot_prefix '''' = Inl (ValueError ''Extension cannot be empty.'')
   \<and> ensure_dot_prefix ''   '' = Inl (ValueError ''Extension cannot be empty.'')"
  by (auto simp: ensure_dot_prefix_def Let_def startswith_def strip_def is_space_def)

theorem ensure_dot_prefix_contract_witness:
  "strip '' ben '' \<noteq> [] \<and> ensure_dot_prefix '' ben '' = Inr ''.ben''
   \<and> ensure_dot_prefix ''.zz'' = Inr ''.zz''"
  using ensure_dot_prefix_contract [of "'' ben ''"] ensure_dot_prefix_contract [of "''.zz''"]
  by (simp add: strip_def is_space_def startswith_def)


section \<open>Contract of the conflict-free destination\<close>




section \<open>Effects of the rename engine\<close>





text \<open>
  C4. With \<^verbatim>\<open>dry_run\<close> set, \<^verbatim>\<open>change_extension\<close> leaves the filesystem as it was, for
  every path, extension and combination of the other flags. A call that reports success
  without \<^verbatim>\<open>dry_run\<close> has performed one \<^verbatim>\<open>os.replace\<close> of the file, and a call that
  reports no success has changed nothing.
\<close>

theorem dry_run_no_mutation:
  "fst (change_extension e fs p x v ow True) = fs
   \<and> (change_extension e fs p x v ow False = (fs', Inr (True, m)) \<longrightarrow>
        (\<exists>d. os_replace e fs p d = Inr fs'))
   \<and> (change_extension e fs p x v ow dry = (fs', Inr (False, m)) \<longrightarrow> fs' = fs)
   \<and> (change_extension e fs p x v ow dry = (fs', Inl err) \<longrightarrow> fs' = fs)"
  by (auto simp: change_extension_def rename_step_def caught_def
      split: sum.splits if_splits error.splits)

theorem dry_run_no_mutation_witness:
  "change_extension
     \<lparr>zip_valid = (\<lambda>c. True), read_error = (\<lambda>p. False), stat_error = (\<lambda>p. None), rename_error = (\<lambda>a b. None),
      glob = (\<lambda>s. []), resolve = (\<lambda>p. p)\<rparr>
     (fmupd (Path [] [''a.zip'']) (File ''PK'') fmempty) (Path [] [''a.zip''])
     ''.ben'' True False False
     = (fmupd (Path [] [''a.ben'']) (File ''PK'') fmempty, Inr (True, ''Renamed: a.zip -> a.ben''))
   \<and> (\<exists>d. os_replace
          \<lparr>zip_valid = (\<lambda>c. True), read_error = (\<lambda>p. False), stat_error = (\<lambda>p. None), rename_error = (\<lambda>a b. None),
           glob = (\<lambda>s. []), resolve = (\<lambda>p. p)\<rparr>
          (fmupd (Path [] [''a.zip'']) (File ''PK'') fmempty) (Path [] [''a.zip'']) d
          = Inr (fmupd (Path [] [''a.ben'']) (File ''PK'') fmempty))"
proof -
  have ev: "change_extension
     \<lparr>zip_valid = (\<lambda>c. True), read_error = (\<lambda>p. False), stat_error = (\<lambda>p. None), rename_error = (\<lambda>a b. None),
      glob = (\<lambda>s. []), resolve = (\<lambda>p. p)\<rparr>
     (fmupd (Path [] [''a.zip'']) (File ''PK'') fmempty) (Path [] [''a.zip''])
     ''.ben'' True False False
     = (fmupd (Path [] [''a.ben'']) (File ''PK'') fmempty, Inr (True, ''Renamed: a.zip -> a.ben''))"
    by code_simp
  then show ?thesis
    using dry_run_no_mutation
      [of "\<lparr>zip_valid = (\<lambda>c. True), read_error = (\<lambda>p. False), stat_error = (\<lambda>p. None), rename_error = (\<lambda>a b. None),
            glob = (\<lambda>s. []), resolve = (\<lambda>p. p)\<rparr>"
          "fmupd (Path [] [''a.zip'']) (File ''PK'') fmempty" "Path [] [''a.zip'']"
          "''.ben''" True False
          "fmupd (Path [] [''a.ben'']) (File ''PK'') fmempty" "''Renamed: a.zip -> a.ben''"]
    by blast
qed





section \<open>The verification gate and the overwrite\<close>






section \<open>Conflicts with an existing destination\<close>



section \<open>Files that already carry the target extension\<close>






section \<open>The batch and its exit status\<close>

lemma expand_matches_mono:
  "expand_matches fs e ps acc = Inr acc' \<Longrightarrow> snd acc \<noteq> [] \<Longrightarrow> snd acc' \<noteq> []"
  by (induction fs e ps acc rule: expand_matches.induct)
     (auto simp: Let_def split: sum.splits if_splits)

lemma expand_matches_nonempty:
  assumes "ps \<noteq> []" and "expand_matches fs e ps ({}, []) = Inr acc'"
  shows "snd acc' \<noteq> []"
proof (cases ps)
  case Nil
  with assms show ?thesis by simp
next
  case (Cons q qs)
  from assms(2) Cons obtain found where
    pe: "path_exists e fs q = Inr found" by (auto split: sum.splits)
  let ?p = "if found then resolve e q else q"
  from assms(2) Cons pe have "expand_matches fs e qs ({?p}, [?p]) = Inr acc'"
    by (simp add: Let_def)
  then show ?thesis by (rule expand_matches_mono) simp
qed

lemma expand_items_mono:
  "expand_items fs e items acc = Inr acc' \<Longrightarrow> snd acc \<noteq> [] \<Longrightarrow> snd acc' \<noteq> []"
proof (induction items arbitrary: acc)
  case Nil
  then show ?case by simp
next
  case (Cons item items)
  let ?m0 = "map path_of (glob e item)"
  let ?m = "if ?m0 = [] then [path_of item] else ?m0"
  from Cons.prems(1) obtain acc1 where
    m: "expand_matches fs e ?m acc = Inr acc1" and r: "expand_items fs e items acc1 = Inr acc'"
    by (auto simp: Let_def split: sum.splits if_splits)
  from m Cons.prems(2) have "snd acc1 \<noteq> []" by (rule expand_matches_mono)
  with r show ?case by (rule Cons.IH)
qed

lemma expand_inputs_nonempty:
  assumes "items \<noteq> []" and "expand_inputs fs e items = Inr files"
  shows "files \<noteq> []"
proof (cases items)
  case Nil
  with assms show ?thesis by simp
next
  case (Cons item rest)
  let ?m0 = "map path_of (glob e item)"
  let ?m = "if ?m0 = [] then [path_of item] else ?m0"
  from assms(2) obtain acc' where ei: "expand_items fs e items ({}, []) = Inr acc'"
    and fl: "files = snd acc'"
    by (auto simp: expand_inputs_def split: sum.splits prod.splits)
  from ei Cons obtain acc1 where
    m: "expand_matches fs e ?m ({}, []) = Inr acc1" and r: "expand_items fs e rest acc1 = Inr acc'"
    by (auto simp: Let_def split: sum.splits if_splits)
  have "?m \<noteq> []" by simp
  from this m have "snd acc1 \<noteq> []" by (rule expand_matches_nonempty)
  with r have "snd acc' \<noteq> []" by (rule expand_items_mono)
  with fl show ?thesis by simp
qed

lemma main_loop_returns:
  "list_all returned (outcomes e a files fs) \<Longrightarrow>
     main_loop e a files fs out ok
       = (final_fs e a files fs, out @ map message_of (outcomes e a files fs),
          Inr (ok \<and> list_all successful (outcomes e a files fs)))"
proof (induction files arbitrary: fs out ok)
  case Nil
  then show ?case by simp
next
  case (Cons f files)
  obtain fs1 r where ce: "change_extension e fs f (args_to a) (\<not> args_no_verify a) (args_force a)
             (args_dry_run a) = (fs1, r)"
    by (cases "change_extension e fs f (args_to a) (\<not> args_no_verify a) (args_force a)
             (args_dry_run a)") auto
  from Cons.prems ce have rr: "returned r" and rest: "list_all returned (outcomes e a files fs1)"
    by simp_all
  from rr obtain b m where r: "r = Inr (b, m)"
    by (cases r) (auto simp: returned_def)
  from Cons.IH [OF rest, of "out @ [m]" "ok \<and> b"] ce r show ?case
    by (simp add: message_of_def successful_def conj_assoc)
qed

lemma main_loop_outcomes:
  "main_loop e a files fs out ok = (fs', out', Inr ok') \<Longrightarrow>
     list_all returned (outcomes e a files fs)"
proof (induction files arbitrary: fs out ok)
  case Nil
  then show ?case by simp
next
  case (Cons f files)
  obtain fs1 r where ce: "change_extension e fs f (args_to a) (\<not> args_no_verify a) (args_force a)
             (args_dry_run a) = (fs1, r)"
    by (cases "change_extension e fs f (args_to a) (\<not> args_no_verify a) (args_force a)
             (args_dry_run a)") auto
  show ?case
  proof (cases r)
    case (Inl err)
    with Cons.prems ce show ?thesis by simp
  next
    case (Inr bm)
    obtain b m where bm: "bm = (b, m)" by (cases bm) auto
    from Cons.prems ce Inr bm
    have "main_loop e a files fs1 (out @ [m]) (ok \<and> b) = (fs', out', Inr ok')" by simp
    from Cons.IH [OF this] ce Inr bm show ?thesis by (simp add: returned_def)
  qed
qed

lemma outcomes_length: "length (outcomes e a files fs) = length files"
  by (induction files arbitrary: fs) (auto split: prod.splits)

text \<open>
  C5. Inputs are given and resolve to the list of files, which is then not empty. When
  every file's call returns an outcome, \<^verbatim>\<open>main\<close> returns: it has processed every file,
  each on the filesystem the earlier ones left, has printed the message of each outcome in
  order, and its exit status is 0 when every outcome was successful and 1 otherwise. When
  \<^verbatim>\<open>main\<close> returns a status, every file's call had returned an outcome. A file that is
  not a regular file, or that fails the ZIP verification, gives a skip outcome without
  success and without a change of the filesystem, so the files after it are processed.
\<close>

theorem exit_code_aggregation:
  "args_paths a @ args_pattern a \<noteq> []
   \<and> expand_inputs fs e (args_paths a @ args_pattern a) = Inr files \<longrightarrow>
     files \<noteq> []
     \<and> length (outcomes e a files fs) = length files
     \<and> (list_all returned (outcomes e a files fs) \<longrightarrow>
          main e fs a
            = (final_fs e a files fs, map message_of (outcomes e a files fs),
               Inr (if list_all successful (outcomes e a files fs) then 0 else 1)))
     \<and> (\<forall>fs' out code. main e fs a = (fs', out, Inr code) \<longrightarrow>
          list_all returned (outcomes e a files fs))
     \<and> (\<forall>f g. path_is_file e g f = Inr False \<longrightarrow>
          change_extension e g f (args_to a) (\<not> args_no_verify a) (args_force a) (args_dry_run a)
            = (g, Inr (False, ''Skip: '' @ quoted f @ '' is not a file.'')))
     \<and> (\<forall>f g ext. path_is_file e g f = Inr True \<and> ensure_dot_prefix (args_to a) = Inr ext
            \<and> \<not> args_no_verify a \<and> \<not> is_zip_file e g f \<longrightarrow>
          change_extension e g f (args_to a) (\<not> args_no_verify a) (args_force a) (args_dry_run a)
            = (g, Inr (False, ''Skip: '' @ quoted f
                       @ '' is not a valid ZIP (use --no-verify to force).'')))"
proof (intro impI)
  assume h: "args_paths a @ args_pattern a \<noteq> []
   \<and> expand_inputs fs e (args_paths a @ args_pattern a) = Inr files"
  then have ne0: "args_paths a @ args_pattern a \<noteq> []"
    and ei: "expand_inputs fs e (args_paths a @ args_pattern a) = Inr files" by simp_all
  have ne: "files \<noteq> []" using ne0 ei by (rule expand_inputs_nonempty)
  have len: "length (outcomes e a files fs) = length files" by (rule outcomes_length)
  have fwd: "list_all returned (outcomes e a files fs) \<longrightarrow>
          main e fs a
            = (final_fs e a files fs, map message_of (outcomes e a files fs),
               Inr (if list_all successful (outcomes e a files fs) then 0 else 1))"
  proof
    assume r: "list_all returned (outcomes e a files fs)"
    from main_loop_returns [OF r, of "[]" True]
    show "main e fs a
            = (final_fs e a files fs, map message_of (outcomes e a files fs),
               Inr (if list_all successful (outcomes e a files fs) then 0 else 1))"
      using ne0 ei ne by (simp add: main_def Let_def)
  qed
  have bwd: "\<forall>fs' out code. main e fs a = (fs', out, Inr code) \<longrightarrow>
          list_all returned (outcomes e a files fs)"
  proof (intro allI impI)
    fix fs' out code assume m: "main e fs a = (fs', out, Inr code)"
    obtain fs1 out1 r1 where ml: "main_loop e a files fs [] True = (fs1, out1, r1)"
      by (cases "main_loop e a files fs [] True") auto
    from m ne0 ei ne ml obtain ok where "r1 = Inr ok"
      by (cases r1) (auto simp: main_def Let_def)
    with ml show "list_all returned (outcomes e a files fs)"
      by (auto dest: main_loop_outcomes)
  qed
  have s1: "\<forall>f g. path_is_file e g f = Inr False \<longrightarrow>
          change_extension e g f (args_to a) (\<not> args_no_verify a) (args_force a) (args_dry_run a)
            = (g, Inr (False, ''Skip: '' @ quoted f @ '' is not a file.''))"
    by (simp add: change_extension_def)
  have s2: "\<forall>f g ext. path_is_file e g f = Inr True \<and> ensure_dot_prefix (args_to a) = Inr ext
            \<and> \<not> args_no_verify a \<and> \<not> is_zip_file e g f \<longrightarrow>
          change_extension e g f (args_to a) (\<not> args_no_verify a) (args_force a) (args_dry_run a)
            = (g, Inr (False, ''Skip: '' @ quoted f
                       @ '' is not a valid ZIP (use --no-verify to force).''))"
    by (simp add: change_extension_def)
  from ne len fwd bwd s1 s2 show "files \<noteq> []
     \<and> length (outcomes e a files fs) = length files
     \<and> (list_all returned (outcomes e a files fs) \<longrightarrow>
          main e fs a
            = (final_fs e a files fs, map message_of (outcomes e a files fs),
               Inr (if list_all successful (outcomes e a files fs) then 0 else 1)))
     \<and> (\<forall>fs' out code. main e fs a = (fs', out, Inr code) \<longrightarrow>
          list_all returned (outcomes e a files fs))
     \<and> (\<forall>f g. path_is_file e g f = Inr False \<longrightarrow>
          change_extension e g f (args_to a) (\<not> args_no_verify a) (args_force a) (args_dry_run a)
            = (g, Inr (False, ''Skip: '' @ quoted f @ '' is not a file.'')))
     \<and> (\<forall>f g ext. path_is_file e g f = Inr True \<and> ensure_dot_prefix (args_to a) = Inr ext
            \<and> \<not> args_no_verify a \<and> \<not> is_zip_file e g f \<longrightarrow>
          change_extension e g f (args_to a) (\<not> args_no_verify a) (args_force a) (args_dry_run a)
            = (g, Inr (False, ''Skip: '' @ quoted f
                       @ '' is not a valid ZIP (use --no-verify to force).'')))"
    by blast
qed

theorem exit_code_aggregation_witness:
  "main plain_env (fmupd (Path [] [''b.zip'']) (File ''PKb'') (fmupd (Path [] [''a.zip'']) (File ''text'') fmempty))
     \<lparr>args_paths = [''missing.zip'', ''a.zip'', ''b.zip''], args_pattern = [], args_to = ''.ben'', args_force = False, args_no_verify = False, args_dry_run = False\<rparr>
   = ((fmupd (Path [] [''b.ben'']) (File ''PKb'') (fmdrop (Path [] [''b.zip'']) (fmupd (Path [] [''b.zip'']) (File ''PKb'') (fmupd (Path [] [''a.zip'']) (File ''text'') fmempty)))),
      [''Skip: '' @ quoted (Path [] [''missing.zip'']) @ '' is not a file.'', ''Skip: '' @ quoted (Path [] [''a.zip'']) @ '' is not a valid ZIP (use --no-verify to force).'', ''Renamed: b.zip -> b.ben''],
      Inr 1)
   \<and> main plain_env (fmupd (Path [] [''b.zip'']) (File ''PKb'') fmempty)
     \<lparr>args_paths = [], args_pattern = [''b.zip''], args_to = ''ben'', args_force = True, args_no_verify = False, args_dry_run = False\<rparr>
   = ((fmupd (Path [] [''b.ben'']) (File ''PKb'') (fmdrop (Path [] [''b.zip'']) (fmupd (Path [] [''b.zip'']) (File ''PKb'') fmempty))),
      [''Renamed: b.zip -> b.ben''],
      Inr 0)"
proof -
  let ?a = "\<lparr>args_paths = [''missing.zip'', ''a.zip'', ''b.zip''], args_pattern = [], args_to = ''.ben'', args_force = False, args_no_verify = False, args_dry_run = False\<rparr>"
  let ?b = "\<lparr>args_paths = [], args_pattern = [''b.zip''], args_to = ''ben'', args_force = True, args_no_verify = False, args_dry_run = False\<rparr>"
  have eva: "args_paths ?a @ args_pattern ?a \<noteq> []
     \<and> expand_inputs (fmupd (Path [] [''b.zip'']) (File ''PKb'') (fmupd (Path [] [''a.zip'']) (File ''text'') fmempty)) plain_env (args_paths ?a @ args_pattern ?a)
         = Inr [Path [] [''missing.zip''], Path [] [''a.zip''], Path [] [''b.zip'']]
     \<and> list_all returned (outcomes plain_env ?a [Path [] [''missing.zip''], Path [] [''a.zip''], Path [] [''b.zip'']] (fmupd (Path [] [''b.zip'']) (File ''PKb'') (fmupd (Path [] [''a.zip'']) (File ''text'') fmempty)))
     \<and> final_fs plain_env ?a [Path [] [''missing.zip''], Path [] [''a.zip''], Path [] [''b.zip'']] (fmupd (Path [] [''b.zip'']) (File ''PKb'') (fmupd (Path [] [''a.zip'']) (File ''text'') fmempty))
         = (fmupd (Path [] [''b.ben'']) (File ''PKb'') (fmdrop (Path [] [''b.zip'']) (fmupd (Path [] [''b.zip'']) (File ''PKb'') (fmupd (Path [] [''a.zip'']) (File ''text'') fmempty))))
     \<and> map message_of (outcomes plain_env ?a [Path [] [''missing.zip''], Path [] [''a.zip''], Path [] [''b.zip'']] (fmupd (Path [] [''b.zip'']) (File ''PKb'') (fmupd (Path [] [''a.zip'']) (File ''text'') fmempty)))
         = [''Skip: '' @ quoted (Path [] [''missing.zip'']) @ '' is not a file.'', ''Skip: '' @ quoted (Path [] [''a.zip'']) @ '' is not a valid ZIP (use --no-verify to force).'', ''Renamed: b.zip -> b.ben'']
     \<and> \<not> list_all successful (outcomes plain_env ?a [Path [] [''missing.zip''], Path [] [''a.zip''], Path [] [''b.zip'']] (fmupd (Path [] [''b.zip'']) (File ''PKb'') (fmupd (Path [] [''a.zip'']) (File ''text'') fmempty)))"
    by code_simp
  have evb: "args_paths ?b @ args_pattern ?b \<noteq> []
     \<and> expand_inputs (fmupd (Path [] [''b.zip'']) (File ''PKb'') fmempty) plain_env (args_paths ?b @ args_pattern ?b)
         = Inr [Path [] [''b.zip'']]
     \<and> list_all returned (outcomes plain_env ?b [Path [] [''b.zip'']] (fmupd (Path [] [''b.zip'']) (File ''PKb'') fmempty))
     \<and> final_fs plain_env ?b [Path [] [''b.zip'']] (fmupd (Path [] [''b.zip'']) (File ''PKb'') fmempty)
         = (fmupd (Path [] [''b.ben'']) (File ''PKb'') (fmdrop (Path [] [''b.zip'']) (fmupd (Path [] [''b.zip'']) (File ''PKb'') fmempty)))
     \<and> map message_of (outcomes plain_env ?b [Path [] [''b.zip'']] (fmupd (Path [] [''b.zip'']) (File ''PKb'') fmempty))
         = [''Renamed: b.zip -> b.ben'']
     \<and> list_all successful (outcomes plain_env ?b [Path [] [''b.zip'']] (fmupd (Path [] [''b.zip'']) (File ''PKb'') fmempty))"
    by code_simp
  from exit_code_aggregation [of ?a "(fmupd (Path [] [''b.zip'']) (File ''PKb'') (fmupd (Path [] [''a.zip'']) (File ''text'') fmempty))" plain_env "[Path [] [''missing.zip''], Path [] [''a.zip''], Path [] [''b.zip'']]"] eva
  have ma: "main plain_env (fmupd (Path [] [''b.zip'']) (File ''PKb'') (fmupd (Path [] [''a.zip'']) (File ''text'') fmempty)) ?a
     = (final_fs plain_env ?a [Path [] [''missing.zip''], Path [] [''a.zip''], Path [] [''b.zip'']] (fmupd (Path [] [''b.zip'']) (File ''PKb'') (fmupd (Path [] [''a.zip'']) (File ''text'') fmempty)),
        map message_of (outcomes plain_env ?a [Path [] [''missing.zip''], Path [] [''a.zip''], Path [] [''b.zip'']] (fmupd (Path [] [''b.zip'']) (File ''PKb'') (fmupd (Path [] [''a.zip'']) (File ''text'') fmempty))),
        Inr (if list_all successful (outcomes plain_env ?a [Path [] [''missing.zip''], Path [] [''a.zip''], Path [] [''b.zip'']] (fmupd (Path [] [''b.zip'']) (File ''PKb'') (fmupd (Path [] [''a.zip'']) (File ''text'') fmempty))) then 0 else 1))"
    by blast
  from exit_code_aggregation [of ?b "(fmupd (Path [] [''b.zip'']) (File ''PKb'') fmempty)" plain_env "[Path [] [''b.zip'']]"] evb
  have mb: "main plain_env (fmupd (Path [] [''b.zip'']) (File ''PKb'') fmempty) ?b
     = (final_fs plain_env ?b [Path [] [''b.zip'']] (fmupd (Path [] [''b.zip'']) (File ''PKb'') fmempty),
        map message_of (outcomes plain_env ?b [Path [] [''b.zip'']] (fmupd (Path [] [''b.zip'']) (File ''PKb'') fmempty)),
        Inr (if list_all successful (outcomes plain_env ?b [Path [] [''b.zip'']] (fmupd (Path [] [''b.zip'']) (File ''PKb'') fmempty)) then 0 else 1))"
    by blast
  from ma mb eva evb show ?thesis by simp
qed

section \<open>Where the program departs from its description\<close>

text \<open>
  C8. The inputs are the single pattern \<^verbatim>\<open>*.zip\<close>, which matches nothing, on an empty
  filesystem. The claim expects the line \<^verbatim>\<open>No files matched the provided paths/patterns.\<close>
  and exit status 1. The pattern falls back to a literal path, so the list of files is not
  empty: the program prints the skip line of that path instead, and exits with status 1
  without touching the filesystem.
\<close>

theorem no_match_prints_skip:
  "glob plain_env ''*.zip'' = []
   \<and> expand_inputs fmempty plain_env [''*.zip''] = Inr [Path [] [''*.zip'']]
   \<and> main plain_env fmempty
        \<lparr>args_paths = [''*.zip''], args_pattern = [], args_to = ''.ben'',
         args_force = False, args_no_verify = False, args_dry_run = False\<rparr>
      = (fmempty, [''Skip: '' @ [CHR 0x27] @ ''*.zip'' @ [CHR 0x27] @ '' is not a file.''], Inr 1)"
  by code_simp

text \<open>
  C9. \<^verbatim>\<open>a.zip\<close> is a valid ZIP container beside an existing \<^verbatim>\<open>a.ben\<close>, and
  \<^verbatim>\<open>overwrite\<close> is not set. The claim expects the dry run to name the destination a real
  run would use. The dry run names \<^verbatim>\<open>a.ben\<close>; the real run on the same filesystem with
  the same flags renames the file to \<^verbatim>\<open>a-1.ben\<close>.
\<close>

theorem dry_run_names_naive_destination:
  "change_extension plain_env
     (fmupd (Path [] [''a.zip'']) (File ''PKnew'')
        (fmupd (Path [] [''a.ben'']) (File ''old'') fmempty))
     (Path [] [''a.zip'']) ''.ben'' True False True
   = (fmupd (Path [] [''a.zip'']) (File ''PKnew'')
        (fmupd (Path [] [''a.ben'']) (File ''old'') fmempty),
      Inr (True, ''Would rename: a.zip -> a.ben''))
   \<and> snd (change_extension plain_env
     (fmupd (Path [] [''a.zip'']) (File ''PKnew'')
        (fmupd (Path [] [''a.ben'']) (File ''old'') fmempty))
     (Path [] [''a.zip'']) ''.ben'' True False False)
   = Inr (True, ''Renamed: a.zip -> a-1.ben (renamed to avoid conflict: a-1.ben)'')"
  by code_simp

end
